theory Spec2Isabelle
  imports Main "HOL-Library.AList" "HOL-Library.Word"
begin

unbundle bit_operations_syntax

section \<open>Tuya vibration door sensor (zhaquirks/tuya/ts601\_door.py)\<close>

subsection \<open>Identifiers\<close>

definition DOOR_HANDLE_DP_ID :: int where "DOOR_HANDLE_DP_ID = 1"
definition BATTERY_STATE_DP_ID :: int where "BATTERY_STATE_DP_ID = 3"
definition VIBRATION_DP_ID :: int where "VIBRATION_DP_ID = 10"

definition DP_HANDLER_EP_ID :: int where "DP_HANDLER_EP_ID = 1"
definition DOOR_HANDLE_EP_ID :: int where "DOOR_HANDLE_EP_ID = 2"
definition VIBRATION_EP_ID :: int where "VIBRATION_EP_ID = 3"

text \<open>
  The ZCL cluster types the file refers to. A cluster is found on an endpoint through the
  \<open>ep_attribute\<close> of its type (\<open>IasZone.ep_attribute\<close>,
  \<open>PowerConfiguration.ep_attribute\<close>), so the type itself stands for that name.
  \<open>TuyaManufacturer\<close> is the cluster type with id \<open>TUYA_CLUSTER_ID\<close>.
\<close>

datatype cluster_type =
  Basic | Groups | Scenes | PowerConfiguration | IasZone | Time | Ota | TuyaManufacturer

text \<open>The attributes the file names, through \<open>AttributeDefs.<attribute>.name\<close> or \<open>.id\<close>.\<close>

datatype attr_name =
  power_source | battery_size | battery_quantity | battery_percentage_remaining
  | zone_state | zone_type | zone_status

subsection \<open>Values\<close>

text \<open>
  What a data point carries (the spec's \<open>raw_value: integer/bytes\<close>), as the decoding of
  the report hands it to a converter. An integer arrives either as a plain Python integer
  (data points of the kinds VALUE, BOOL and ENUM: \<open>int\<close> subclasses with no operators of
  their own) or, for a data point of the kind BITMAP, as a flag of the library's type
  \<open>bitmap8\<close>, \<open>bitmap16\<close> or \<open>bitmap32\<close>, by the length of its data (1, 2 or 4
  bytes). A data point of the kind RAW carries a byte string. An attribute cache holds
  Python integers, byte strings, and the members of the library's enumerations that the
  constructors store, kept symbolic.
\<close>

datatype payload =
  PInt int
  | PBitmap8 "8 word"
  | PBitmap16 "16 word"
  | PBitmap32 "32 word"
  | PBytes "8 word list"

datatype val =
  IntV int
  | BytesV "8 word list"
  | PowerSource_Battery
  | BatterySize_AAA
  | ZoneType_Contact_Switch
  | ZoneType_Vibration_Movement_Sensor

datatype error = TypeError | NoSuchCluster

text \<open>
  Modelled from the spec: \<open>ZoneStatus.Alarm_1\<close>, a constant of the ZCL library that is not
  part of the file. The spec calls it the single alarm-bit mask and identifies it with
  bit 0 (a zone status of 1 is ``bit 0 set'').
\<close>

definition Alarm_1 :: int where "Alarm_1 = 1"

subsection \<open>The data-point table\<close>

record DPToAttributeMapping =
  endpoint_id :: int
  ep_attribute :: cluster_type
  attribute_name :: attr_name
  converter :: "payload \<Rightarrow> error + val"

text \<open>
  \<open>lambda x: ZoneStatus.Alarm_1 & x\<close>. \<open>ZoneStatus\<close> is a flag type over \<open>bitmap16\<close>.
  Its \<open>&\<close> takes a flag of its own base type \<open>bitmap16\<close>; for a plain Python integer (of
  any sign or size) it leaves the operation to the integer, which computes the bitwise
  and. A flag of another type (\<open>bitmap8\<close>, \<open>bitmap32\<close>) is refused by both operands,
  and so is a byte string: the lambda raises TypeError.
\<close>

fun alarm_converter :: "payload \<Rightarrow> error + val" where
  "alarm_converter (PInt x) = Inr (IntV (Alarm_1 AND x))"
| "alarm_converter (PBitmap16 w) = Inr (IntV (Alarm_1 AND uint w))"
| "alarm_converter (PBitmap8 w) = Inl TypeError"
| "alarm_converter (PBitmap32 w) = Inl TypeError"
| "alarm_converter (PBytes b) = Inl TypeError"

text \<open>
  \<open>lambda x: 2 * x\<close>. On a Python integer, plain or flag, this is the integer product, with
  no bound and no wrap-around; on a byte string \<open>2 * x\<close> is the string repeated twice.
\<close>

fun battery_converter :: "payload \<Rightarrow> error + val" where
  "battery_converter (PInt x) = Inr (IntV (2 * x))"
| "battery_converter (PBitmap8 w) = Inr (IntV (2 * uint w))"
| "battery_converter (PBitmap16 w) = Inr (IntV (2 * uint w))"
| "battery_converter (PBitmap32 w) = Inr (IntV (2 * uint w))"
| "battery_converter (PBytes b) = Inr (BytesV (b @ b))"

definition dp_to_attribute_items :: "(int \<times> DPToAttributeMapping) list" where
  "dp_to_attribute_items =
    [(DOOR_HANDLE_DP_ID,
        \<lparr>endpoint_id = DOOR_HANDLE_EP_ID, ep_attribute = IasZone,
         attribute_name = zone_status, converter = alarm_converter\<rparr>),
     (VIBRATION_DP_ID,
        \<lparr>endpoint_id = VIBRATION_EP_ID, ep_attribute = IasZone,
         attribute_name = zone_status, converter = alarm_converter\<rparr>),
     (BATTERY_STATE_DP_ID,
        \<lparr>endpoint_id = DP_HANDLER_EP_ID, ep_attribute = PowerConfiguration,
         attribute_name = battery_percentage_remaining, converter = battery_converter\<rparr>)]"

definition dp_to_attribute :: "int \<rightharpoonup> DPToAttributeMapping" where
  "dp_to_attribute = map_of dp_to_attribute_items"

definition data_point_handlers :: "int \<rightharpoonup> string" where
  "data_point_handlers =
    map_of [(DOOR_HANDLE_DP_ID, ''_dp_2_attr_update''),
            (VIBRATION_DP_ID, ''_dp_2_attr_update''),
            (BATTERY_STATE_DP_ID, ''_dp_2_attr_update'')]"

subsection \<open>Cluster classes and their constructors\<close>

text \<open>
  An entry of \<open>INPUT_CLUSTERS\<close> or \<open>OUTPUT_CLUSTERS\<close>: one of the five classes the file
  defines, or the bare id of a standard cluster (\<open>Groups.cluster_id\<close>, ...).
\<close>

datatype cluster_entry =
  CustomBasicCluster
  | CustomTuyaPowerConfigurationCluster
  | CustomTuyaContactSwitchCluster
  | CustomTuyaVibrationCluster
  | CustomTuyaDPProcessor
  | cluster_id cluster_type

text \<open>The cluster type of an entry: the ZCL base class of a custom class, or the id's own.\<close>

fun cluster_type_of :: "cluster_entry \<Rightarrow> cluster_type" where
  "cluster_type_of CustomBasicCluster = Basic"
| "cluster_type_of CustomTuyaPowerConfigurationCluster = PowerConfiguration"
| "cluster_type_of CustomTuyaContactSwitchCluster = IasZone"
| "cluster_type_of CustomTuyaVibrationCluster = IasZone"
| "cluster_type_of CustomTuyaDPProcessor = TuyaManufacturer"
| "cluster_type_of (cluster_id t) = t"

type_synonym attribute_cache = "(attr_name \<times> val) list"

text \<open>
  Modelled from the spec: \<open>update_attribute\<close>, inherited from \<open>CustomCluster\<close> and
  \<open>TuyaLocalCluster\<close>, which are not part of the file. By the spec it sets the pair
  (attribute, value) into the cluster's attribute cache; as in a Python dict, a key that is
  present keeps its place and gets the new value, a new key goes to the end.
\<close>

definition update_attribute :: "attr_name \<Rightarrow> val \<Rightarrow> attribute_cache \<Rightarrow> attribute_cache" where
  "update_attribute a v cache = AList.update a v cache"

text \<open>
  The constructors. Each calls \<open>super().__init__\<close>, which leaves the cache empty, and then
  \<open>update_attribute\<close> in the order written. \<open>ZONE_STATE\<close> is a constant of
  \<open>zhaquirks.const\<close>, not part of the file: it is a parameter here.
\<close>

definition CustomBasicCluster_init :: attribute_cache where
  "CustomBasicCluster_init = update_attribute power_source PowerSource_Battery []"

definition CustomTuyaPowerConfigurationCluster_init :: attribute_cache where
  "CustomTuyaPowerConfigurationCluster_init =
    (let c0 = [];
         c1 = update_attribute battery_size BatterySize_AAA c0;
         c2 = update_attribute battery_quantity (IntV 2) c1;
         c3 = update_attribute battery_percentage_remaining (IntV (100 * 2)) c2
     in c3)"

definition CustomTuyaContactSwitchCluster_init :: "val \<Rightarrow> attribute_cache" where
  "CustomTuyaContactSwitchCluster_init ZONE_STATE =
    (let c0 = [];
         c1 = update_attribute zone_state ZONE_STATE c0;
         c2 = update_attribute zone_type ZoneType_Contact_Switch c1;
         c3 = update_attribute zone_status (IntV 0x0000) c2
     in c3)"

definition CustomTuyaVibrationCluster_init :: "val \<Rightarrow> attribute_cache" where
  "CustomTuyaVibrationCluster_init ZONE_STATE =
    (let c0 = [];
         c1 = update_attribute zone_state ZONE_STATE c0;
         c2 = update_attribute zone_type ZoneType_Vibration_Movement_Sensor c1;
         c3 = update_attribute zone_status (IntV 0x0000) c2
     in c3)"

text \<open>
  The cache of a new instance of an entry. \<open>CustomTuyaDPProcessor\<close> defines no constructor
  and a standard cluster given by id is built by the library: both start empty.
\<close>

fun init_cache :: "val \<Rightarrow> cluster_entry \<Rightarrow> attribute_cache" where
  "init_cache ZONE_STATE CustomBasicCluster = CustomBasicCluster_init"
| "init_cache ZONE_STATE CustomTuyaPowerConfigurationCluster =
     CustomTuyaPowerConfigurationCluster_init"
| "init_cache ZONE_STATE CustomTuyaContactSwitchCluster =
     CustomTuyaContactSwitchCluster_init ZONE_STATE"
| "init_cache ZONE_STATE CustomTuyaVibrationCluster =
     CustomTuyaVibrationCluster_init ZONE_STATE"
| "init_cache ZONE_STATE CustomTuyaDPProcessor = []"
| "init_cache ZONE_STATE (cluster_id t) = []"

subsection \<open>The replacement topology\<close>

datatype device_type = SMART_PLUG | IAS_ZONE

text \<open>\<open>zha.PROFILE_ID\<close> is 260: the file's comment on the signature gives \<open>profile=260\<close>.\<close>

definition zha_PROFILE_ID :: int where "zha_PROFILE_ID = 260"

record endpoint_descriptor =
  PROFILE_ID :: int
  DEVICE_TYPE :: device_type
  INPUT_CLUSTERS :: "cluster_entry list"
  OUTPUT_CLUSTERS :: "cluster_entry list"

definition replacement :: "(int \<times> endpoint_descriptor) list" where
  "replacement =
    [(DP_HANDLER_EP_ID,
        \<lparr>PROFILE_ID = zha_PROFILE_ID, DEVICE_TYPE = SMART_PLUG,
         INPUT_CLUSTERS =
           [CustomBasicCluster, cluster_id Groups, cluster_id Scenes,
            CustomTuyaPowerConfigurationCluster, CustomTuyaDPProcessor],
         OUTPUT_CLUSTERS = [cluster_id Time, cluster_id Ota]\<rparr>),
     (DOOR_HANDLE_EP_ID,
        \<lparr>PROFILE_ID = zha_PROFILE_ID, DEVICE_TYPE = IAS_ZONE,
         INPUT_CLUSTERS =
           [CustomBasicCluster, cluster_id Groups, cluster_id Scenes,
            CustomTuyaContactSwitchCluster],
         OUTPUT_CLUSTERS = [cluster_id Time]\<rparr>),
     (VIBRATION_EP_ID,
        \<lparr>PROFILE_ID = zha_PROFILE_ID, DEVICE_TYPE = IAS_ZONE,
         INPUT_CLUSTERS =
           [CustomBasicCluster, cluster_id Groups, cluster_id Scenes,
            CustomTuyaVibrationCluster],
         OUTPUT_CLUSTERS = [cluster_id Time]\<rparr>)]"

subsection \<open>The synthesized device\<close>

text \<open>
  Cluster instances are Python objects: two endpoints may hold the same class, never the
  same object unless somebody shares it. The device therefore is a heap of cluster objects
  (an address is an index into it) and, for every endpoint, the addresses of its input and
  output clusters under their cluster types.
\<close>

record cluster_obj =
  cls :: cluster_entry
  is_server :: bool
  attr_cache :: attribute_cache

record endpoint_obj =
  in_clusters :: "(cluster_type \<times> nat) list"
  out_clusters :: "(cluster_type \<times> nat) list"

record device =
  endpoints :: "(int \<times> endpoint_obj) list"
  heap :: "cluster_obj list"

text \<open>
  Modelled from the spec: the host framework's construction of a device from the
  \<open>replacement\<close> topology (\<open>CustomDevice.__init__\<close>, which \<open>TS0601Door.__init__\<close> only
  calls), not part of the file. By the spec each synthesized endpoint carries its own
  instance of every cluster type it lists: every entry of \<open>INPUT_CLUSTERS\<close> (as a server)
  and of \<open>OUTPUT_CLUSTERS\<close> (as a client) is constructed once per endpoint, in the order
  written, and its constructor seeds its cache.
\<close>

fun add_clusters ::
  "val \<Rightarrow> bool \<Rightarrow> cluster_entry list \<Rightarrow> cluster_obj list
    \<Rightarrow> (cluster_type \<times> nat) list \<times> cluster_obj list" where
  "add_clusters ZONE_STATE srv [] h = ([], h)"
| "add_clusters ZONE_STATE srv (c # cs) h =
    (let obj = \<lparr>cls = c, is_server = srv, attr_cache = init_cache ZONE_STATE c\<rparr>;
         (m, h') = add_clusters ZONE_STATE srv cs (h @ [obj])
     in ((cluster_type_of c, length h) # m, h'))"

fun add_endpoints ::
  "val \<Rightarrow> (int \<times> endpoint_descriptor) list \<Rightarrow> cluster_obj list
    \<Rightarrow> (int \<times> endpoint_obj) list \<times> cluster_obj list" where
  "add_endpoints ZONE_STATE [] h = ([], h)"
| "add_endpoints ZONE_STATE ((i, d) # ds) h =
    (let (ins, h1) = add_clusters ZONE_STATE True (INPUT_CLUSTERS d) h;
         (outs, h2) = add_clusters ZONE_STATE False (OUTPUT_CLUSTERS d) h1;
         (es, h3) = add_endpoints ZONE_STATE ds h2
     in ((i, \<lparr>in_clusters = ins, out_clusters = outs\<rparr>) # es, h3))"

definition TS0601Door_init :: "val \<Rightarrow> device" where
  "TS0601Door_init ZONE_STATE =
    (let (es, h) = add_endpoints ZONE_STATE replacement []
     in \<lparr>endpoints = es, heap = h\<rparr>)"

text \<open>
  The cluster instance located at an endpoint under a cluster type
  (\<open>getattr(device.endpoints[endpoint_id], ep_attribute)\<close>): an input cluster of that
  endpoint, if there is one.
\<close>

definition cluster_at :: "device \<Rightarrow> int \<Rightarrow> cluster_type \<Rightarrow> nat option" where
  "cluster_at dev ep t =
    (case map_of (endpoints dev) ep of
       None \<Rightarrow> None
     | Some e \<Rightarrow>
        (case map_of (in_clusters e) t of
           None \<Rightarrow> None
         | Some a \<Rightarrow> if a < length (heap dev) then Some a else None))"

text \<open>Reading an attribute of the cluster at an endpoint from its cache.\<close>

definition attribute :: "device \<Rightarrow> int \<Rightarrow> cluster_type \<Rightarrow> attr_name \<Rightarrow> val option" where
  "attribute dev ep t n =
    (case cluster_at dev ep t of
       None \<Rightarrow> None
     | Some a \<Rightarrow> map_of (attr_cache (heap dev ! a)) n)"

text \<open>The instances an endpoint carries, and those of a given cluster type.\<close>

definition instances_of :: "endpoint_obj \<Rightarrow> (cluster_type \<times> nat) list" where
  "instances_of e = in_clusters e @ out_clusters e"

definition all_instances :: "device \<Rightarrow> nat list" where
  "all_instances dev = concat (map (\<lambda>(i, e). map snd (instances_of e)) (endpoints dev))"

definition instances_of_type :: "device \<Rightarrow> int \<Rightarrow> cluster_type \<Rightarrow> nat list" where
  "instances_of_type dev ep t =
    (case map_of (endpoints dev) ep of
       None \<Rightarrow> []
     | Some e \<Rightarrow> map snd (filter (\<lambda>(t', a). t' = t) (instances_of e)))"

subsection \<open>The data-point dispatcher\<close>

record DataPointReport =
  dp_id :: int
  raw_value :: payload

text \<open>\<open>cluster.update_attribute(attribute_name, value)\<close> on the object at address \<open>a\<close>.\<close>

definition write_attribute :: "device \<Rightarrow> nat \<Rightarrow> attr_name \<Rightarrow> val \<Rightarrow> device" where
  "write_attribute dev a n v =
    dev\<lparr>heap := (heap dev)
      [a := (heap dev ! a)\<lparr>attr_cache := update_attribute n v (attr_cache (heap dev ! a))\<rparr>]\<rparr>"

text \<open>
  Modelled from the spec: the handler \<open>_dp_2_attr_update\<close> that \<open>data_point_handlers\<close>
  names, inherited from \<open>TuyaNewManufCluster\<close> (\<open>zhaquirks.tuya\<close>), not part of the file.
  By the spec (4.2) it looks the report's id up in the static table; if found, it applies
  the associated converter to the raw value, then writes the result into the named
  attribute of the cluster instance located at the target endpoint; if not found, the
  report is ignored. A failure of the converter propagates (7). The spec does not say
  what happens when no cluster instance is located at the target: the model surfaces that
  as an error of its own, and the theorems below are about devices that have the instance.
\<close>

definition dp_2_attr_update :: "device \<Rightarrow> DataPointReport \<Rightarrow> error + device" where
  "dp_2_attr_update dev r =
    (case dp_to_attribute (dp_id r) of
       None \<Rightarrow> Inr dev
     | Some m \<Rightarrow>
        (case converter m (raw_value r) of
           Inl e \<Rightarrow> Inl e
         | Inr v \<Rightarrow>
            (case cluster_at dev (endpoint_id m) (ep_attribute m) of
               None \<Rightarrow> Inl NoSuchCluster
             | Some a \<Rightarrow> Inr (write_attribute dev a (attribute_name m) v))))"

text \<open>
  Modelled from the spec: the dispatch of one report by \<open>TuyaNewManufCluster\<close>, not part
  of the file. A report whose id has no entry in \<open>data_point_handlers\<close> is ignored, with
  no error; otherwise the handler the entry names is run, and the only handler this file
  names is \<open>_dp_2_attr_update\<close>.
\<close>

definition dispatch :: "device \<Rightarrow> DataPointReport \<Rightarrow> error + device" where
  "dispatch dev r =
    (case data_point_handlers (dp_id r) of
       None \<Rightarrow> Inr dev
     | Some handler \<Rightarrow>
        if handler = ''_dp_2_attr_update'' then dp_2_attr_update dev r else Inr dev)"

section \<open>Properties\<close>

subsection \<open>Evaluating the tables and the constructors\<close>

lemmas id_defs = DOOR_HANDLE_DP_ID_def BATTERY_STATE_DP_ID_def VIBRATION_DP_ID_def
  DP_HANDLER_EP_ID_def DOOR_HANDLE_EP_ID_def VIBRATION_EP_ID_def

lemmas init_defs = update_attribute_def CustomBasicCluster_init_def
  CustomTuyaPowerConfigurationCluster_init_def CustomTuyaContactSwitchCluster_init_def
  CustomTuyaVibrationCluster_init_def

lemma power_cache:
  "CustomTuyaPowerConfigurationCluster_init =
    [(battery_size, BatterySize_AAA), (battery_quantity, IntV 2),
     (battery_percentage_remaining, IntV 200)]"
  by (simp add: init_defs)

lemma contact_cache:
  "CustomTuyaContactSwitchCluster_init z =
    [(zone_state, z), (zone_type, ZoneType_Contact_Switch), (zone_status, IntV 0)]"
  by (simp add: init_defs)

lemma vibration_cache:
  "CustomTuyaVibrationCluster_init z =
    [(zone_state, z), (zone_type, ZoneType_Vibration_Movement_Sensor), (zone_status, IntV 0)]"
  by (simp add: init_defs)

lemma basic_cache: "CustomBasicCluster_init = [(power_source, PowerSource_Battery)]"
  by (simp add: init_defs)

lemma init_endpoints:
  "endpoints (TS0601Door_init z) =
    [(1, \<lparr>in_clusters =
            [(Basic, 0), (Groups, 1), (Scenes, 2), (PowerConfiguration, 3),
             (TuyaManufacturer, 4)],
          out_clusters = [(Time, 5), (Ota, 6)]\<rparr>),
     (2, \<lparr>in_clusters = [(Basic, 7), (Groups, 8), (Scenes, 9), (IasZone, 10)],
          out_clusters = [(Time, 11)]\<rparr>),
     (3, \<lparr>in_clusters = [(Basic, 12), (Groups, 13), (Scenes, 14), (IasZone, 15)],
          out_clusters = [(Time, 16)]\<rparr>)]"
  by (simp add: TS0601Door_init_def replacement_def id_defs)

lemma init_heap:
  "heap (TS0601Door_init z) =
    [\<lparr>cls = CustomBasicCluster, is_server = True, attr_cache = CustomBasicCluster_init\<rparr>,
     \<lparr>cls = cluster_id Groups, is_server = True, attr_cache = []\<rparr>,
     \<lparr>cls = cluster_id Scenes, is_server = True, attr_cache = []\<rparr>,
     \<lparr>cls = CustomTuyaPowerConfigurationCluster, is_server = True,
       attr_cache = CustomTuyaPowerConfigurationCluster_init\<rparr>,
     \<lparr>cls = CustomTuyaDPProcessor, is_server = True, attr_cache = []\<rparr>,
     \<lparr>cls = cluster_id Time, is_server = False, attr_cache = []\<rparr>,
     \<lparr>cls = cluster_id Ota, is_server = False, attr_cache = []\<rparr>,
     \<lparr>cls = CustomBasicCluster, is_server = True, attr_cache = CustomBasicCluster_init\<rparr>,
     \<lparr>cls = cluster_id Groups, is_server = True, attr_cache = []\<rparr>,
     \<lparr>cls = cluster_id Scenes, is_server = True, attr_cache = []\<rparr>,
     \<lparr>cls = CustomTuyaContactSwitchCluster, is_server = True,
       attr_cache = CustomTuyaContactSwitchCluster_init z\<rparr>,
     \<lparr>cls = cluster_id Time, is_server = False, attr_cache = []\<rparr>,
     \<lparr>cls = CustomBasicCluster, is_server = True, attr_cache = CustomBasicCluster_init\<rparr>,
     \<lparr>cls = cluster_id Groups, is_server = True, attr_cache = []\<rparr>,
     \<lparr>cls = cluster_id Scenes, is_server = True, attr_cache = []\<rparr>,
     \<lparr>cls = CustomTuyaVibrationCluster, is_server = True,
       attr_cache = CustomTuyaVibrationCluster_init z\<rparr>,
     \<lparr>cls = cluster_id Time, is_server = False, attr_cache = []\<rparr>]"
  by (simp add: TS0601Door_init_def replacement_def id_defs)

lemma init_cluster_at:
  "cluster_at (TS0601Door_init z) 1 Basic = Some 0"
  "cluster_at (TS0601Door_init z) 1 PowerConfiguration = Some 3"
  "cluster_at (TS0601Door_init z) 2 Basic = Some 7"
  "cluster_at (TS0601Door_init z) 2 IasZone = Some 10"
  "cluster_at (TS0601Door_init z) 3 Basic = Some 12"
  "cluster_at (TS0601Door_init z) 3 IasZone = Some 15"
  by (simp_all add: cluster_at_def init_endpoints init_heap)

lemma data_point_handlers_eq:
  "data_point_handlers i = (if i = 1 \<or> i = 10 \<or> i = 3 then Some ''_dp_2_attr_update'' else None)"
  by (simp add: data_point_handlers_def id_defs)

lemma dp_to_attribute_eq:
  "dp_to_attribute i =
    (if i = 1 then Some \<lparr>endpoint_id = 2, ep_attribute = IasZone,
                         attribute_name = zone_status, converter = alarm_converter\<rparr>
     else if i = 10 then Some \<lparr>endpoint_id = 3, ep_attribute = IasZone,
                         attribute_name = zone_status, converter = alarm_converter\<rparr>
     else if i = 3 then Some \<lparr>endpoint_id = 1, ep_attribute = PowerConfiguration,
                         attribute_name = battery_percentage_remaining,
                         converter = battery_converter\<rparr>
     else None)"
  by (simp add: dp_to_attribute_def dp_to_attribute_items_def id_defs)

lemma dispatch_runs_handler:
  "dp_to_attribute (dp_id r) = Some m \<Longrightarrow> dispatch dev r = dp_2_attr_update dev r"
  by (simp add: dispatch_def data_point_handlers_eq dp_to_attribute_eq split: if_splits)








lemma init_attribute:
  "attribute (TS0601Door_init z) 1 Basic n = map_of CustomBasicCluster_init n"
  "attribute (TS0601Door_init z) 2 Basic n = map_of CustomBasicCluster_init n"
  "attribute (TS0601Door_init z) 3 Basic n = map_of CustomBasicCluster_init n"
  "attribute (TS0601Door_init z) 1 PowerConfiguration n =
     map_of CustomTuyaPowerConfigurationCluster_init n"
  "attribute (TS0601Door_init z) 2 IasZone n = map_of (CustomTuyaContactSwitchCluster_init z) n"
  "attribute (TS0601Door_init z) 3 IasZone n = map_of (CustomTuyaVibrationCluster_init z) n"
  by (simp_all add: attribute_def init_cluster_at init_heap)


subsection \<open>Dispatch of a known data point\<close>

text \<open>
  C1. For every report whose id is a key of the data-point table (1, 3 or 10), on a device
  that has the target cluster, dispatch applies the entry's converter to the raw value and
  writes the converter's result into the named attribute of the cluster instance at the
  entry's endpoint: \<open>zone_status\<close> of the IasZone cluster at endpoint 2 for id 1 and at
  endpoint 3 for id 10, \<open>battery_percentage_remaining\<close> of the PowerConfiguration
  cluster at endpoint 1 for id 3. Nothing else is written: the resulting device is the
  old one with that single cache entry set. When the converter fails on the raw value,
  its failure is the result and nothing is written.
\<close>

theorem dispatch_known_data_point:
  assumes "dp_to_attribute (dp_id r) = Some m"
    and "cluster_at dev (endpoint_id m) (ep_attribute m) = Some a"
  shows "dispatch dev r =
      (case converter m (raw_value r) of
         Inl e \<Rightarrow> Inl e
       | Inr v \<Rightarrow>
          Inr (dev\<lparr>heap := (heap dev)
                [a := (heap dev ! a)
                   \<lparr>attr_cache := AList.update (attribute_name m) v
                                    (attr_cache (heap dev ! a))\<rparr>]\<rparr>))
    \<and> (dp_id r, endpoint_id m, ep_attribute m, attribute_name m) \<in>
        {(1, 2, IasZone, zone_status), (10, 3, IasZone, zone_status),
         (3, 1, PowerConfiguration, battery_percentage_remaining)}
    \<and> dom dp_to_attribute = {1, 3, 10}"
proof -
  have "dispatch dev r = dp_2_attr_update dev r"
    using assms(1) by (rule dispatch_runs_handler)
  then have "dispatch dev r =
      (case converter m (raw_value r) of
         Inl e \<Rightarrow> Inl e
       | Inr v \<Rightarrow>
          Inr (dev\<lparr>heap := (heap dev)
                [a := (heap dev ! a)
                   \<lparr>attr_cache := AList.update (attribute_name m) v
                                    (attr_cache (heap dev ! a))\<rparr>]\<rparr>))"
    using assms
    by (simp add: dp_2_attr_update_def write_attribute_def update_attribute_def
          split: sum.splits)
  moreover have "(dp_id r, endpoint_id m, ep_attribute m, attribute_name m) \<in>
        {(1, 2, IasZone, zone_status), (10, 3, IasZone, zone_status),
         (3, 1, PowerConfiguration, battery_percentage_remaining)}"
    using assms(1) by (auto simp: dp_to_attribute_eq split: if_splits)
  moreover have "dom dp_to_attribute = {1, 3, 10}"
    by (auto simp: dom_def dp_to_attribute_eq)
  ultimately show ?thesis
    by blast
qed

theorem dispatch_known_data_point_witness:
  "dispatch (TS0601Door_init (IntV 0)) \<lparr>dp_id = 3, raw_value = PInt 57\<rparr> =
     Inr ((TS0601Door_init (IntV 0))\<lparr>heap := (heap (TS0601Door_init (IntV 0)))
        [3 := \<lparr>cls = CustomTuyaPowerConfigurationCluster, is_server = True,
               attr_cache = [(battery_size, BatterySize_AAA), (battery_quantity, IntV 2),
                             (battery_percentage_remaining, IntV 114)]\<rparr>]\<rparr>)"
proof -
  let ?m = "\<lparr>endpoint_id = 1, ep_attribute = PowerConfiguration,
             attribute_name = battery_percentage_remaining, converter = battery_converter\<rparr>"
  let ?r = "\<lparr>dp_id = 3, raw_value = PInt 57\<rparr>"
  have 1: "dp_to_attribute (dp_id ?r) = Some ?m" by (simp add: dp_to_attribute_eq)
  have 2: "cluster_at (TS0601Door_init (IntV 0)) (endpoint_id ?m) (ep_attribute ?m) = Some 3"
    by (simp add: init_cluster_at)
  show ?thesis
    using dispatch_known_data_point [OF 1 2]
    by (simp add: init_heap power_cache)
qed

subsection \<open>Dispatch of an unknown data point\<close>

text \<open>
  C2. For every report whose id is none of the table's keys 1, 3 and 10, dispatch is a
  no-op: it returns without an error and the device, with every attribute cache, is the
  one it was given.
\<close>

theorem unknown_data_point_ignored:
  "dp_id r \<notin> {1, 3, 10} \<Longrightarrow> dispatch dev r = Inr dev"
  by (simp add: dispatch_def data_point_handlers_eq)

theorem unknown_data_point_ignored_witness:
  "dispatch (TS0601Door_init (IntV 0)) \<lparr>dp_id = 2, raw_value = PInt 1\<rparr> =
     Inr (TS0601Door_init (IntV 0))"
  using unknown_data_point_ignored
    [of "\<lparr>dp_id = 2, raw_value = PInt 1\<rparr>" "TS0601Door_init (IntV 0)"]
  by simp

subsection \<open>The battery data point\<close>



subsection \<open>The door and vibration data points\<close>




subsection \<open>The caches after construction\<close>

text \<open>
  C5. After the construction of the synthesized clusters and before any report, the caches
  hold \<open>battery_percentage_remaining = 200\<close>, \<open>battery_size = AAA\<close> and
  \<open>battery_quantity = 2\<close> in the PowerConfiguration cluster, \<open>power_source = Battery\<close> in the
  Basic cluster of every endpoint, \<open>zone_status = 0\<close> in both IasZone clusters,
  \<open>zone_type = Contact_Switch\<close> in the door cluster and
  \<open>zone_type = Vibration_Movement_Sensor\<close> in the vibration cluster. This holds of the
  constructors' caches and of the device built from them.
\<close>

theorem initial_attribute_caches:
  "attribute (TS0601Door_init z) DP_HANDLER_EP_ID PowerConfiguration
      battery_percentage_remaining = Some (IntV 200)
   \<and> attribute (TS0601Door_init z) DP_HANDLER_EP_ID PowerConfiguration battery_size
      = Some BatterySize_AAA
   \<and> attribute (TS0601Door_init z) DP_HANDLER_EP_ID PowerConfiguration battery_quantity
      = Some (IntV 2)
   \<and> attribute (TS0601Door_init z) DP_HANDLER_EP_ID Basic power_source
      = Some PowerSource_Battery
   \<and> attribute (TS0601Door_init z) DOOR_HANDLE_EP_ID Basic power_source
      = Some PowerSource_Battery
   \<and> attribute (TS0601Door_init z) VIBRATION_EP_ID Basic power_source
      = Some PowerSource_Battery
   \<and> attribute (TS0601Door_init z) DOOR_HANDLE_EP_ID IasZone zone_status = Some (IntV 0)
   \<and> attribute (TS0601Door_init z) VIBRATION_EP_ID IasZone zone_status = Some (IntV 0)
   \<and> attribute (TS0601Door_init z) DOOR_HANDLE_EP_ID IasZone zone_type
      = Some ZoneType_Contact_Switch
   \<and> attribute (TS0601Door_init z) VIBRATION_EP_ID IasZone zone_type
      = Some ZoneType_Vibration_Movement_Sensor
   \<and> map_of CustomBasicCluster_init power_source = Some PowerSource_Battery
   \<and> map_of CustomTuyaPowerConfigurationCluster_init battery_percentage_remaining
      = Some (IntV 200)
   \<and> map_of CustomTuyaPowerConfigurationCluster_init battery_size = Some BatterySize_AAA
   \<and> map_of CustomTuyaPowerConfigurationCluster_init battery_quantity = Some (IntV 2)
   \<and> map_of (CustomTuyaContactSwitchCluster_init z) zone_status = Some (IntV 0)
   \<and> map_of (CustomTuyaContactSwitchCluster_init z) zone_type = Some ZoneType_Contact_Switch
   \<and> map_of (CustomTuyaVibrationCluster_init z) zone_status = Some (IntV 0)
   \<and> map_of (CustomTuyaVibrationCluster_init z) zone_type
      = Some ZoneType_Vibration_Movement_Sensor"
  by (simp add: id_defs init_attribute basic_cache power_cache contact_cache vibration_cache)

subsection \<open>A door report, end to end\<close>



subsection \<open>The topology\<close>

text \<open>
  C7. In the replacement topology the three synthesized endpoints 1, 2 and 3 share no
  cluster instance: the instances of the built device are pairwise distinct objects, one
  for every entry of every endpoint. Every endpoint carries at most one instance of any
  cluster type, and each of the endpoints 2 and 3 carries exactly one IasZone instance
  (endpoint 1 carries none, and the two IasZone instances are different objects).
\<close>

theorem replacement_topology:
  "map (\<lambda>(i, d). (i, map cluster_type_of (INPUT_CLUSTERS d @ OUTPUT_CLUSTERS d))) replacement =
     [(1, [Basic, Groups, Scenes, PowerConfiguration, TuyaManufacturer, Time, Ota]),
      (2, [Basic, Groups, Scenes, IasZone, Time]),
      (3, [Basic, Groups, Scenes, IasZone, Time])]
   \<and> map fst (endpoints (TS0601Door_init z)) = [1, 2, 3]
   \<and> distinct (all_instances (TS0601Door_init z))
   \<and> length (all_instances (TS0601Door_init z)) = length (heap (TS0601Door_init z))
   \<and> (\<forall>e t. length (instances_of_type (TS0601Door_init z) e t) \<le> 1)
   \<and> length (instances_of_type (TS0601Door_init z) DOOR_HANDLE_EP_ID IasZone) = 1
   \<and> length (instances_of_type (TS0601Door_init z) VIBRATION_EP_ID IasZone) = 1
   \<and> instances_of_type (TS0601Door_init z) DP_HANDLER_EP_ID IasZone = []
   \<and> instances_of_type (TS0601Door_init z) DOOR_HANDLE_EP_ID IasZone
      \<noteq> instances_of_type (TS0601Door_init z) VIBRATION_EP_ID IasZone"
proof -
  have "\<forall>e t. length (instances_of_type (TS0601Door_init z) e t) \<le> 1"
  proof (intro allI)
    fix e t
    show "length (instances_of_type (TS0601Door_init z) e t) \<le> 1"
      by (cases t) (simp_all add: instances_of_type_def instances_of_def init_endpoints)
  qed
  moreover have
    "map (\<lambda>(i, d). (i, map cluster_type_of (INPUT_CLUSTERS d @ OUTPUT_CLUSTERS d))) replacement =
     [(1, [Basic, Groups, Scenes, PowerConfiguration, TuyaManufacturer, Time, Ota]),
      (2, [Basic, Groups, Scenes, IasZone, Time]),
      (3, [Basic, Groups, Scenes, IasZone, Time])]"
    by (simp add: replacement_def id_defs)
  ultimately show ?thesis
    by (simp add: all_instances_def instances_of_type_def instances_of_def init_endpoints
          init_heap id_defs)
qed

subsection \<open>The converters\<close>




subsection \<open>The zone state after construction\<close>

text \<open>
  C9. Both IasZone constructors, of the door cluster and of the vibration cluster, also
  set \<open>zone_state\<close> to \<open>ZONE_STATE\<close> at construction, whatever that constant is: their
  caches hold it, and so do the IasZone clusters of the newly built device at the
  endpoints 2 and 3.
\<close>

theorem initial_zone_state:
  "attribute (TS0601Door_init ZONE_STATE) DOOR_HANDLE_EP_ID IasZone zone_state
      = Some ZONE_STATE
   \<and> attribute (TS0601Door_init ZONE_STATE) VIBRATION_EP_ID IasZone zone_state
      = Some ZONE_STATE
   \<and> map_of (CustomTuyaContactSwitchCluster_init ZONE_STATE) zone_state = Some ZONE_STATE
   \<and> map_of (CustomTuyaVibrationCluster_init ZONE_STATE) zone_state = Some ZONE_STATE"
  by (simp add: id_defs init_attribute contact_cache vibration_cache)

subsection \<open>No clamping of the battery value\<close>



end
